theory Spec2Isabelle
  imports Complex_Main
begin

section \<open>The model factory of \<^verbatim>\<open>src/model_factory.py\<close>\<close>

text \<open>
  The module wraps two classifiers of an external numerical library behind one class,
  \<^verbatim>\<open>ModelBase\<close>, with the methods \<^verbatim>\<open>train\<close>, \<^verbatim>\<open>predict\<close>, \<^verbatim>\<open>evaluate\<close>,
  \<^verbatim>\<open>save\<close> and \<^verbatim>\<open>load\<close>, two subclasses that only differ in their constructor, and
  the factory \<^verbatim>\<open>get_model\<close>.

  Python objects live in a store: an object is created at a fresh address, a method
  receives the address \<open>self\<close>, and an attribute assignment updates the object at that
  address. Every method takes the state and returns its result, or the exception it
  raises, together with the state it leaves behind.
\<close>

subsection \<open>Exceptions\<close>

datatype error =
    ValueError string      \<comment> \<open>\<^verbatim>\<open>raise ValueError(msg)\<close>, the only exception the module raises itself\<close>
  | KeyError string        \<comment> \<open>a dictionary subscript with a missing key\<close>
  | AttributeError         \<comment> \<open>a method called on an object that does not have it\<close>
  | OSError string         \<comment> \<open>\<^verbatim>\<open>open\<close> failing on the given path\<close>
  | UnpicklingError        \<comment> \<open>\<^verbatim>\<open>pickle.load\<close> on bytes that are no pickle\<close>
  | NotFittedError         \<comment> \<open>the library's exception for an estimator used before \<^verbatim>\<open>fit\<close>\<close>
  | LibraryError string    \<comment> \<open>any other exception of the library (a shape mismatch, ...)\<close>

subsection \<open>Objects and the store\<close>

type_synonym ref = nat

text \<open>
  The two estimator classes of the library, with the keyword arguments the module's
  constructors pass to them.
\<close>

datatype estimator =
    DecisionTreeClassifier (max_depth: int) (random_state: int)
  | RandomForestClassifier (n_estimators: int) (max_depth: int) (random_state: int)

text \<open>
  An estimator object: its construction-time parameters and what \<^verbatim>\<open>fit\<close> has learned,
  \<open>None\<close> as long as \<^verbatim>\<open>fit\<close> has not succeeded on it.
\<close>

record 'f classifier =
  params :: estimator
  fitted :: "'f option"

datatype model_class = ModelBase | DecisionTreeModel | RandomForestModel

text \<open>An instance of \<^verbatim>\<open>ModelBase\<close> or of a subclass: its class and its two attributes.\<close>

record model_instance =
  cls :: model_class
  model :: "ref option"
  model_name :: string

datatype 'f obj = Inst model_instance | Clf "'f classifier"

record ('f, 'b) state =
  heap :: "'f obj list"                \<comment> \<open>the object at address \<open>r\<close> is \<open>heap ! r\<close>\<close>
  files :: "string \<Rightarrow> 'b option"       \<comment> \<open>the content of each existing file\<close>
  writable :: "string \<Rightarrow> bool"         \<comment> \<open>whether \<^verbatim>\<open>open(path, 'wb')\<close> succeeds\<close>

definition alloc :: "'f obj \<Rightarrow> ('f, 'b) state \<Rightarrow> ref \<times> ('f, 'b) state" where
  "alloc v s = (length (heap s), s\<lparr>heap := heap s @ [v]\<rparr>)"

definition lookup :: "('f, 'b) state \<Rightarrow> ref \<Rightarrow> 'f obj option" where
  "lookup s r = (if r < length (heap s) then Some (heap s ! r) else None)"

definition store :: "ref \<Rightarrow> 'f obj \<Rightarrow> ('f, 'b) state \<Rightarrow> ('f, 'b) state" where
  "store r v s = s\<lparr>heap := (heap s)[r := v]\<rparr>"

definition get_instance :: "('f, 'b) state \<Rightarrow> ref \<Rightarrow> model_instance option" where
  "get_instance s r = (case lookup s r of Some (Inst i) \<Rightarrow> Some i | _ \<Rightarrow> None)"

definition get_classifier :: "('f, 'b) state \<Rightarrow> ref \<Rightarrow> 'f classifier option" where
  "get_classifier s r = (case lookup s r of Some (Clf c) \<Rightarrow> Some c | _ \<Rightarrow> None)"

text \<open>
  The value of the attribute \<^verbatim>\<open>self.model\<close> as \<^verbatim>\<open>pickle\<close> sees it: \<^verbatim>\<open>None\<close>, or the
  estimator object the attribute refers to. The outer \<open>None\<close> is a reference to no
  estimator, which Python cannot produce.
\<close>

definition model_value :: "('f, 'b) state \<Rightarrow> model_instance \<Rightarrow> 'f classifier option option" where
  "model_value s i =
     (case model i of
        None \<Rightarrow> Some None
      | Some r \<Rightarrow> (case get_classifier s r of None \<Rightarrow> None | Some c \<Rightarrow> Some (Some c)))"

subsection \<open>The external library\<close>

text \<open>
  The learning algorithms, the two metrics and the serialiser are not part of the
  module; they are parameters of the model. A feature matrix has type \<open>'x\<close>, a label
  vector \<open>'y\<close>, what an estimator learns \<open>'f\<close>, a file's content \<open>'b\<close>. Scores are real
  numbers.
\<close>

datatype average = Binary | Micro | Macro | Weighted | Samples

record ('x, 'y, 'f, 'b) library =
  fit_impl :: "estimator \<Rightarrow> 'x \<Rightarrow> 'y \<Rightarrow> error + 'f"
  predict_impl :: "estimator \<Rightarrow> 'f \<Rightarrow> 'x \<Rightarrow> error + 'y"
  precision_score :: "'y \<Rightarrow> 'y \<Rightarrow> average \<Rightarrow> real \<Rightarrow> error + real"
  recall_score :: "'y \<Rightarrow> 'y \<Rightarrow> average \<Rightarrow> real \<Rightarrow> error + real"
  pickle_dumps :: "'f classifier option \<Rightarrow> 'b"
  pickle_loads :: "'b \<Rightarrow> error + 'f classifier option"

text \<open>
  The library's estimator protocol: \<^verbatim>\<open>fit\<close> learns from scratch and keeps the result in
  the object; \<^verbatim>\<open>predict\<close> on an object never fitted raises \<^verbatim>\<open>NotFittedError\<close>.
\<close>

definition estimator_fit ::
  "('x, 'y, 'f, 'b) library \<Rightarrow> 'f classifier \<Rightarrow> 'x \<Rightarrow> 'y \<Rightarrow> error + 'f classifier" where
  "estimator_fit lib c X y =
     (case fit_impl lib (params c) X y of
        Inl e \<Rightarrow> Inl e
      | Inr f \<Rightarrow> Inr (c\<lparr>fitted := Some f\<rparr>))"

definition estimator_predict ::
  "('x, 'y, 'f, 'b) library \<Rightarrow> 'f classifier \<Rightarrow> 'x \<Rightarrow> error + 'y" where
  "estimator_predict lib c X =
     (case fitted c of
        None \<Rightarrow> Inl NotFittedError
      | Some f \<Rightarrow> predict_impl lib (params c) f X)"

subsection \<open>\<^verbatim>\<open>ModelBase\<close>\<close>

text \<open>Object creation followed by \<^verbatim>\<open>ModelBase.__init__\<close>, for an object of class \<open>c\<close>.\<close>

definition ModelBase_init :: "model_class \<Rightarrow> ('f, 'b) state \<Rightarrow> ref \<times> ('f, 'b) state" where
  "ModelBase_init c s = alloc (Inst \<lparr>cls = c, model = None, model_name = ''BaseModel''\<rparr>) s"

definition set_model :: "ref \<Rightarrow> ref option \<Rightarrow> ('f, 'b) state \<Rightarrow> ('f, 'b) state" where
  "set_model self v s =
     (case get_instance s self of
        None \<Rightarrow> s
      | Some i \<Rightarrow> store self (Inst (i\<lparr>model := v\<rparr>)) s)"

definition set_model_name :: "ref \<Rightarrow> string \<Rightarrow> ('f, 'b) state \<Rightarrow> ('f, 'b) state" where
  "set_model_name self v s =
     (case get_instance s self of
        None \<Rightarrow> s
      | Some i \<Rightarrow> store self (Inst (i\<lparr>model_name := v\<rparr>)) s)"

definition train ::
  "('x, 'y, 'f, 'b) library \<Rightarrow> ref \<Rightarrow> 'x \<Rightarrow> 'y \<Rightarrow> ('f, 'b) state
     \<Rightarrow> (error + unit) \<times> ('f, 'b) state" where
  "train lib self X_train y_train s =
     (case get_instance s self of
        None \<Rightarrow> (Inl AttributeError, s)
      | Some i \<Rightarrow>
          (case model i of
             None \<Rightarrow> (Inl (ValueError ''Model not initialized''), s)
           | Some r \<Rightarrow>
               (case get_classifier s r of
                  None \<Rightarrow> (Inl AttributeError, s)
                | Some c \<Rightarrow>
                    (case estimator_fit lib c X_train y_train of
                       Inl e \<Rightarrow> (Inl e, s)
                     | Inr c' \<Rightarrow> (Inr (), store r (Clf c') s)))))"

definition predict ::
  "('x, 'y, 'f, 'b) library \<Rightarrow> ref \<Rightarrow> 'x \<Rightarrow> ('f, 'b) state
     \<Rightarrow> (error + 'y) \<times> ('f, 'b) state" where
  "predict lib self X s =
     (case get_instance s self of
        None \<Rightarrow> (Inl AttributeError, s)
      | Some i \<Rightarrow>
          (case model i of
             None \<Rightarrow> (Inl (ValueError ''Model not trained''), s)
           | Some r \<Rightarrow>
               (case get_classifier s r of
                  None \<Rightarrow> (Inl AttributeError, s)
                | Some c \<Rightarrow> (estimator_predict lib c X, s))))"

text \<open>The result of \<^verbatim>\<open>evaluate\<close> is a dictionary literal, kept in the order it is written.\<close>

definition evaluate ::
  "('x, 'y, 'f, 'b) library \<Rightarrow> ref \<Rightarrow> 'x \<Rightarrow> 'y \<Rightarrow> ('f, 'b) state
     \<Rightarrow> (error + (string \<times> real) list) \<times> ('f, 'b) state" where
  "evaluate lib self X_test y_test s =
     (case predict lib self X_test s of
        (Inl e, s1) \<Rightarrow> (Inl e, s1)
      | (Inr y_pred, s1) \<Rightarrow>
          (case precision_score lib y_test y_pred Weighted 0 of
             Inl e \<Rightarrow> (Inl e, s1)
           | Inr precision \<Rightarrow>
               (case recall_score lib y_test y_pred Weighted 0 of
                  Inl e \<Rightarrow> (Inl e, s1)
                | Inr recall \<Rightarrow>
                    (Inr [(''precision'', precision),
                          (''recall'', recall),
                          (''f1_score'',
                             if precision + recall > 0
                             then 2 * (precision * recall) / (precision + recall)
                             else 0)],
                     s1))))"

definition save ::
  "('x, 'y, 'f, 'b) library \<Rightarrow> ref \<Rightarrow> string \<Rightarrow> ('f, 'b) state
     \<Rightarrow> (error + unit) \<times> ('f, 'b) state" where
  "save lib self filepath s =
     (case get_instance s self of
        None \<Rightarrow> (Inl AttributeError, s)
      | Some i \<Rightarrow>
          if \<not> writable s filepath then (Inl (OSError filepath), s)
          else
            (case model_value s i of
               None \<Rightarrow> (Inl AttributeError, s)
             | Some v \<Rightarrow> (Inr (), s\<lparr>files := (files s)(filepath \<mapsto> pickle_dumps lib v)\<rparr>)))"

definition load ::
  "('x, 'y, 'f, 'b) library \<Rightarrow> ref \<Rightarrow> string \<Rightarrow> ('f, 'b) state
     \<Rightarrow> (error + unit) \<times> ('f, 'b) state" where
  "load lib self filepath s =
     (case get_instance s self of
        None \<Rightarrow> (Inl AttributeError, s)
      | Some i \<Rightarrow>
          (case files s filepath of
             None \<Rightarrow> (Inl (OSError filepath), s)
           | Some blob \<Rightarrow>
               (case pickle_loads lib blob of
                  Inl e \<Rightarrow> (Inl e, s)
                | Inr None \<Rightarrow> (Inr (), set_model self None s)
                | Inr (Some c) \<Rightarrow>
                    (let (r, s1) = alloc (Clf c) s
                     in (Inr (), set_model self (Some r) s1)))))"

subsection \<open>The two subclasses\<close>

text \<open>A keyword argument left out is \<open>None\<close> here and takes the default of the signature.\<close>

definition DecisionTreeModel_init ::
  "int option \<Rightarrow> int option \<Rightarrow> ('f, 'b) state \<Rightarrow> ref \<times> ('f, 'b) state" where
  "DecisionTreeModel_init max_depth' random_state' s =
     (let (self, s1) = ModelBase_init DecisionTreeModel s;
          (c, s2) = alloc (Clf \<lparr>params = DecisionTreeClassifier
                                  (case max_depth' of None \<Rightarrow> 10 | Some d \<Rightarrow> d)
                                  (case random_state' of None \<Rightarrow> 42 | Some r \<Rightarrow> r),
                                fitted = None\<rparr>) s1;
          s3 = set_model self (Some c) s2;
          s4 = set_model_name self ''DecisionTree'' s3
      in (self, s4))"

definition RandomForestModel_init ::
  "int option \<Rightarrow> int option \<Rightarrow> int option \<Rightarrow> ('f, 'b) state \<Rightarrow> ref \<times> ('f, 'b) state" where
  "RandomForestModel_init n_estimators' max_depth' random_state' s =
     (let (self, s1) = ModelBase_init RandomForestModel s;
          (c, s2) = alloc (Clf \<lparr>params = RandomForestClassifier
                                  (case n_estimators' of None \<Rightarrow> 100 | Some n \<Rightarrow> n)
                                  (case max_depth' of None \<Rightarrow> 10 | Some d \<Rightarrow> d)
                                  (case random_state' of None \<Rightarrow> 42 | Some r \<Rightarrow> r),
                                fitted = None\<rparr>) s1;
          s3 = set_model self (Some c) s2;
          s4 = set_model_name self ''RandomForest'' s3
      in (self, s4))"

subsection \<open>The factory\<close>

text \<open>
  Python's \<^verbatim>\<open>repr\<close> of a string without quotes, backslashes or unprintable characters,
  as the keys of the registry are, and of a list of such strings.
\<close>

definition repr_str :: "string \<Rightarrow> string" where
  "repr_str s = [CHR 0x27] @ s @ [CHR 0x27]"

fun join :: "string \<Rightarrow> string list \<Rightarrow> string" where
  "join sep [] = []"
| "join sep [x] = x"
| "join sep (x # y # ys) = x @ sep @ join sep (y # ys)"

definition repr_list :: "string list \<Rightarrow> string" where
  "repr_list xs = ''['' @ join '', '' (map repr_str xs) @ '']''"

definition models :: "(string \<times> (('f, 'b) state \<Rightarrow> ref \<times> ('f, 'b) state)) list" where
  "models =
     [(''decision_tree'', DecisionTreeModel_init None None),
      (''random_forest'', RandomForestModel_init None None None)]"

definition get_model :: "string \<Rightarrow> ('f, 'b) state \<Rightarrow> (error + ref) \<times> ('f, 'b) state" where
  "get_model model_type s =
     (if model_type \<notin> set (map fst (models :: (string \<times> (('f, 'b) state \<Rightarrow> ref \<times> ('f, 'b) state)) list))
      then (Inl (ValueError (''Unknown model type: '' @ model_type @ ''. Available: ''
                   @ repr_list (map fst (models :: (string \<times> (('f, 'b) state \<Rightarrow> ref \<times> ('f, 'b) state)) list)))), s)
      else
        (case map_of models model_type of
           None \<Rightarrow> (Inl (KeyError model_type), s)
         | Some ctor \<Rightarrow> (let (r, s') = ctor s in (Inr r, s'))))"

subsection \<open>Observations used to state the properties\<close>

text \<open>The estimator object behind \<^verbatim>\<open>self.model\<close>, if there is one.\<close>

definition classifier_of :: "('f, 'b) state \<Rightarrow> ref \<Rightarrow> 'f classifier option" where
  "classifier_of s self =
     (case get_instance s self of
        None \<Rightarrow> None
      | Some i \<Rightarrow> (case model i of None \<Rightarrow> None | Some r \<Rightarrow> get_classifier s r))"

text \<open>
  The three states of an instance: no estimator object, an estimator object on which
  \<^verbatim>\<open>fit\<close> has not been performed, an estimator object on which it has. The result is
  \<open>None\<close> when \<open>self\<close> is not the address of an instance.
\<close>

datatype lifecycle = Uninitialized | Untrained | Trained

definition instance_state :: "('f, 'b) state \<Rightarrow> ref \<Rightarrow> lifecycle option" where
  "instance_state s self =
     (case get_instance s self of
        None \<Rightarrow> None
      | Some i \<Rightarrow>
          (case model_value s i of
             None \<Rightarrow> None
           | Some None \<Rightarrow> Some Uninitialized
           | Some (Some c) \<Rightarrow>
               (case fitted c of None \<Rightarrow> Some Untrained | Some f \<Rightarrow> Some Trained)))"

subsection \<open>A small library, to run the operations on concrete inputs\<close>

text \<open>
  A stand-in for the external library: a feature matrix is a list of numbers, one per
  row, a label vector a list of class numbers; an estimator learns the first label and
  predicts it for every row; precision and recall are averaged over the classes of the
  true labels, weighted by their frequency; the serialiser keeps the value itself.
\<close>

definition demo_fit :: "estimator \<Rightarrow> int list \<Rightarrow> nat list \<Rightarrow> error + nat" where
  "demo_fit e X y =
     (case y of
        [] \<Rightarrow> Inl (LibraryError ''empty training set'')
      | l # ls \<Rightarrow> if length X \<noteq> length y then Inl (LibraryError ''inconsistent lengths'')
                  else Inr l)"

definition demo_predict :: "estimator \<Rightarrow> nat \<Rightarrow> int list \<Rightarrow> error + nat list" where
  "demo_predict e f X = Inr (replicate (length X) f)"

definition true_positives :: "nat list \<Rightarrow> nat list \<Rightarrow> nat \<Rightarrow> nat" where
  "true_positives y_true y_pred c =
     length (filter (\<lambda>(t, p). t = c \<and> p = c) (zip y_true y_pred))"

definition weighted_average :: "(nat \<Rightarrow> real) \<Rightarrow> nat list \<Rightarrow> real" where
  "weighted_average score y_true =
     sum_list (map (\<lambda>c. real (count_list y_true c) * score c) (remdups y_true))
       / real (length y_true)"

definition demo_precision :: "nat list \<Rightarrow> nat list \<Rightarrow> average \<Rightarrow> real \<Rightarrow> error + real" where
  "demo_precision y_true y_pred avg zero_division =
     (if length y_true \<noteq> length y_pred \<or> y_true = [] \<or> avg \<noteq> Weighted
      then Inl (LibraryError ''unsupported input'')
      else Inr (weighted_average
                  (\<lambda>c. if count_list y_pred c = 0 then zero_division
                       else real (true_positives y_true y_pred c) / real (count_list y_pred c))
                  y_true))"

definition demo_recall :: "nat list \<Rightarrow> nat list \<Rightarrow> average \<Rightarrow> real \<Rightarrow> error + real" where
  "demo_recall y_true y_pred avg zero_division =
     (if length y_true \<noteq> length y_pred \<or> y_true = [] \<or> avg \<noteq> Weighted
      then Inl (LibraryError ''unsupported input'')
      else Inr (weighted_average
                  (\<lambda>c. if count_list y_true c = 0 then zero_division
                       else real (true_positives y_true y_pred c) / real (count_list y_true c))
                  y_true))"

definition demo_library :: "(int list, nat list, nat, nat classifier option) library" where
  "demo_library =
     \<lparr>fit_impl = demo_fit, predict_impl = demo_predict,
      precision_score = demo_precision, recall_score = demo_recall,
      pickle_dumps = (\<lambda>v. v), pickle_loads = Inr\<rparr>"

text \<open>A state with no object and no file, where every path but the empty one can be written.\<close>

definition demo_state :: "(nat, nat classifier option) state" where
  "demo_state = \<lparr>heap = [], files = (\<lambda>p. None), writable = (\<lambda>p. p \<noteq> [])\<rparr>"

text \<open>
  The state after \<^verbatim>\<open>m = get_model('decision_tree')\<close> and a successful \<^verbatim>\<open>m.train\<close> on
  four rows, and the state after \<^verbatim>\<open>ModelBase()\<close> alone.
\<close>

definition demo_trained :: "(nat, nat classifier option) state" where
  "demo_trained =
     snd (train demo_library 0 [1, 2, 3, 4] [1, 0, 1, 1]
            (snd (get_model ''decision_tree'' demo_state)))"

definition demo_bare :: "(nat, nat classifier option) state" where
  "demo_bare = snd (ModelBase_init ModelBase demo_state)"

text \<open>
  The state after \<^verbatim>\<open>m = get_model('decision_tree')\<close>, \<^verbatim>\<open>m.save('fresh.pkl')\<close> and
  then a successful \<^verbatim>\<open>m.train\<close>: the instance is trained, the file holds the
  estimator as it was before training.
\<close>

definition demo_stale :: "(nat, nat classifier option) state" where
  "demo_stale =
     snd (train demo_library 0 [1, 2, 3, 4] [1, 0, 1, 1]
            (snd (save demo_library 0 ''fresh.pkl''
                    (snd (get_model ''decision_tree'' demo_state)))))"

text \<open>
  The state after \<^verbatim>\<open>m.save('model.pkl')\<close> on the trained instance followed by
  \<^verbatim>\<open>n = get_model('decision_tree')\<close>, and the state after \<^verbatim>\<open>ModelBase().save('none.pkl')\<close>
  followed by \<^verbatim>\<open>n = get_model('random_forest')\<close>.
\<close>

definition demo_saved :: "(nat, nat classifier option) state" where
  "demo_saved =
     snd (get_model ''decision_tree'' (snd (save demo_library 0 ''model.pkl'' demo_trained)))"

definition demo_none_saved :: "(nat, nat classifier option) state" where
  "demo_none_saved =
     snd (get_model ''random_forest'' (snd (save demo_library 0 ''none.pkl'' demo_bare)))"

section \<open>Properties\<close>

subsection \<open>The store\<close>

lemma lookup_alloc:
  "lookup (snd (alloc v s)) r =
     (if r = length (heap s) then Some v else lookup s r)"
  by (auto simp: lookup_def alloc_def nth_append)

lemma fst_alloc: "fst (alloc v s) = length (heap s)"
  by (simp add: alloc_def)

lemma heap_alloc: "heap (snd (alloc v s)) = heap s @ [v]"
  by (simp add: alloc_def)

lemma lookup_store:
  "lookup (store r v s) r' =
     (if r' = r \<and> r < length (heap s) then Some v else lookup s r')"
  by (auto simp: lookup_def store_def)

lemma length_heap_store: "length (heap (store r v s)) = length (heap s)"
  by (simp add: store_def)

lemma files_store: "files (store r v s) = files s"
  by (simp add: store_def)

lemma writable_store: "writable (store r v s) = writable s"
  by (simp add: store_def)

lemma get_instance_lt: "get_instance s r = Some i \<Longrightarrow> r < length (heap s)"
  by (auto simp: get_instance_def lookup_def split: if_splits)

lemma get_classifier_lt: "get_classifier s r = Some c \<Longrightarrow> r < length (heap s)"
  by (auto simp: get_classifier_def lookup_def split: if_splits)

lemma instance_not_classifier:
  "get_instance s r = Some i \<Longrightarrow> get_classifier s r' = Some c \<Longrightarrow> r \<noteq> r'"
  by (auto simp: get_instance_def get_classifier_def split: option.splits obj.splits)

subsection \<open>The constructors\<close>

lemma DecisionTreeModel_init_eq:
  "DecisionTreeModel_init md rs s =
     (length (heap s),
      s\<lparr>heap := heap s @
          [Inst \<lparr>cls = DecisionTreeModel, model = Some (Suc (length (heap s))),
                 model_name = ''DecisionTree''\<rparr>,
           Clf \<lparr>params = DecisionTreeClassifier
                           (case md of None \<Rightarrow> 10 | Some d \<Rightarrow> d)
                           (case rs of None \<Rightarrow> 42 | Some r \<Rightarrow> r),
                fitted = None\<rparr>]\<rparr>)"
  by (simp add: DecisionTreeModel_init_def ModelBase_init_def alloc_def set_model_def
      set_model_name_def get_instance_def lookup_def store_def nth_append list_update_append)

lemma RandomForestModel_init_eq:
  "RandomForestModel_init ne md rs s =
     (length (heap s),
      s\<lparr>heap := heap s @
          [Inst \<lparr>cls = RandomForestModel, model = Some (Suc (length (heap s))),
                 model_name = ''RandomForest''\<rparr>,
           Clf \<lparr>params = RandomForestClassifier
                           (case ne of None \<Rightarrow> 100 | Some n \<Rightarrow> n)
                           (case md of None \<Rightarrow> 10 | Some d \<Rightarrow> d)
                           (case rs of None \<Rightarrow> 42 | Some r \<Rightarrow> r),
                fitted = None\<rparr>]\<rparr>)"
  by (simp add: RandomForestModel_init_def ModelBase_init_def alloc_def set_model_def
      set_model_name_def get_instance_def lookup_def store_def nth_append list_update_append)

lemma lookup_append2:
  "lookup (s\<lparr>heap := heap s @ [a, b]\<rparr>) r =
     (if r = length (heap s) then Some a
      else if r = Suc (length (heap s)) then Some b
      else lookup s r)"
  by (auto simp: lookup_def nth_append nth_Cons split: nat.splits)

text \<open>
  C9. Each constructor builds an estimator, not yet fitted, from exactly the
  configuration it was given: every option passed is handed on as it is, and every
  option left out takes its default, \<^verbatim>\<open>max_depth=10\<close> and \<^verbatim>\<open>random_state=42\<close> for
  \<^verbatim>\<open>DecisionTreeModel\<close>, \<^verbatim>\<open>n_estimators=100\<close>, \<^verbatim>\<open>max_depth=10\<close> and
  \<^verbatim>\<open>random_state=42\<close> for \<^verbatim>\<open>RandomForestModel\<close>. This holds for every combination of
  options given and left out; constructed without arguments the estimators are
  \<^verbatim>\<open>DecisionTreeClassifier(max_depth=10, random_state=42)\<close> and
  \<^verbatim>\<open>RandomForestClassifier(n_estimators=100, max_depth=10, random_state=42)\<close>.
\<close>

theorem constructor_configuration:
  "classifier_of (snd (DecisionTreeModel_init md rs s)) (fst (DecisionTreeModel_init md rs s))
     = Some \<lparr>params = DecisionTreeClassifier
                         (case md of None \<Rightarrow> 10 | Some d \<Rightarrow> d)
                         (case rs of None \<Rightarrow> 42 | Some r \<Rightarrow> r),
             fitted = None\<rparr>
   \<and> classifier_of (snd (RandomForestModel_init ne md rs s))
       (fst (RandomForestModel_init ne md rs s))
     = Some \<lparr>params = RandomForestClassifier
                         (case ne of None \<Rightarrow> 100 | Some n \<Rightarrow> n)
                         (case md of None \<Rightarrow> 10 | Some d \<Rightarrow> d)
                         (case rs of None \<Rightarrow> 42 | Some r \<Rightarrow> r),
             fitted = None\<rparr>
   \<and> classifier_of (snd (DecisionTreeModel_init None None s))
       (fst (DecisionTreeModel_init None None s))
     = Some \<lparr>params = DecisionTreeClassifier 10 42, fitted = None\<rparr>
   \<and> classifier_of (snd (RandomForestModel_init None None None s))
       (fst (RandomForestModel_init None None None s))
     = Some \<lparr>params = RandomForestClassifier 100 10 42, fitted = None\<rparr>
   \<and> classifier_of (snd (DecisionTreeModel_init (Some d) (Some r) s))
       (fst (DecisionTreeModel_init (Some d) (Some r) s))
     = Some \<lparr>params = DecisionTreeClassifier d r, fitted = None\<rparr>
   \<and> classifier_of (snd (RandomForestModel_init (Some n) (Some d) (Some r) s))
       (fst (RandomForestModel_init (Some n) (Some d) (Some r) s))
     = Some \<lparr>params = RandomForestClassifier n d r, fitted = None\<rparr>"
  by (simp add: DecisionTreeModel_init_eq RandomForestModel_init_eq classifier_of_def
      get_instance_def get_classifier_def lookup_append2)

subsection \<open>The factory\<close>

lemma get_model_decision_tree:
  "get_model ''decision_tree'' s = (Inr (length (heap s)), snd (DecisionTreeModel_init None None s))"
  by (simp add: get_model_def models_def DecisionTreeModel_init_eq)

lemma get_model_random_forest:
  "get_model ''random_forest'' s = (Inr (length (heap s)), snd (RandomForestModel_init None None None s))"
  by (simp add: get_model_def models_def RandomForestModel_init_eq)

lemma instance_state_fresh_decision_tree:
  "instance_state (snd (DecisionTreeModel_init md rs s)) (length (heap s)) = Some Untrained"
  by (simp add: DecisionTreeModel_init_eq instance_state_def model_value_def
      get_instance_def get_classifier_def lookup_append2)

lemma instance_state_fresh_random_forest:
  "instance_state (snd (RandomForestModel_init ne md rs s)) (length (heap s)) = Some Untrained"
  by (simp add: RandomForestModel_init_eq instance_state_def model_value_def
      get_instance_def get_classifier_def lookup_append2)

text \<open>
  C3. For a registered key the factory returns the address of a new object (no object
  of the state before the call has it), an instance of the matching subclass whose
  \<^verbatim>\<open>model_name\<close> is \<^verbatim>\<open>DecisionTree\<close> or \<^verbatim>\<open>RandomForest\<close>, holding a new estimator
  with the default configuration that has not been fitted. A later call, made while the
  first instance still exists, returns another instance.
\<close>

theorem get_model_registered:
  assumes "key \<in> {''decision_tree'', ''random_forest''}"
    and "key' \<in> {''decision_tree'', ''random_forest''}"
    and "get_model key s = (res, s1)"
    and "get_instance s' self \<noteq> None"
    and "get_model key' s' = (res', s2)"
  shows "res = Inr (length (heap s))
    \<and> lookup s (length (heap s)) = None
    \<and> get_instance s1 (length (heap s)) =
           Some \<lparr>cls = (if key = ''decision_tree'' then DecisionTreeModel else RandomForestModel),
                 model = Some (Suc (length (heap s))),
                 model_name = (if key = ''decision_tree'' then ''DecisionTree'' else ''RandomForest'')\<rparr>
    \<and> lookup s (Suc (length (heap s))) = None
    \<and> classifier_of s1 (length (heap s)) =
           Some \<lparr>params = (if key = ''decision_tree'' then DecisionTreeClassifier 10 42
                            else RandomForestClassifier 100 10 42),
                 fitted = None\<rparr>
    \<and> instance_state s1 (length (heap s)) = Some Untrained
    \<and> res' \<noteq> Inr self"
proof -
  from assms(1) have k: "key = ''decision_tree'' \<or> key = ''random_forest''" by simp
  from assms(2) have k': "key' = ''decision_tree'' \<or> key' = ''random_forest''" by simp
  from k assms(3) have res: "res = Inr (length (heap s))"
    by (auto simp: get_model_decision_tree get_model_random_forest)
  have new: "lookup s (length (heap s)) = None" "lookup s (Suc (length (heap s))) = None"
    by (simp_all add: lookup_def)
  from k assms(3) have s1:
    "s1 = (if key = ''decision_tree'' then snd (DecisionTreeModel_init None None s)
           else snd (RandomForestModel_init None None None s))"
    by (auto simp: get_model_decision_tree get_model_random_forest)
  have inst: "get_instance s1 (length (heap s)) =
           Some \<lparr>cls = (if key = ''decision_tree'' then DecisionTreeModel else RandomForestModel),
                 model = Some (Suc (length (heap s))),
                 model_name = (if key = ''decision_tree'' then ''DecisionTree'' else ''RandomForest'')\<rparr>"
    by (simp add: s1 DecisionTreeModel_init_eq RandomForestModel_init_eq get_instance_def
        lookup_append2)
  have clf: "classifier_of s1 (length (heap s)) =
           Some \<lparr>params = (if key = ''decision_tree'' then DecisionTreeClassifier 10 42
                            else RandomForestClassifier 100 10 42),
                 fitted = None\<rparr>"
    by (simp add: s1 DecisionTreeModel_init_eq RandomForestModel_init_eq classifier_of_def
        get_instance_def get_classifier_def lookup_append2)
  have st: "instance_state s1 (length (heap s)) = Some Untrained"
    by (simp add: s1 instance_state_fresh_decision_tree instance_state_fresh_random_forest)
  from assms(4) have "self < length (heap s')"
    by (auto dest: get_instance_lt)
  moreover from k' assms(5) have "res' = Inr (length (heap s'))"
    by (auto simp: get_model_decision_tree get_model_random_forest)
  ultimately have other: "res' \<noteq> Inr self" by simp
  from res new inst clf st other show ?thesis by simp
qed

theorem get_model_registered_witness:
  "fst (get_model ''decision_tree'' demo_state) = Inr 0
   \<and> get_instance (snd (get_model ''decision_tree'' demo_state)) 0
       = Some \<lparr>cls = DecisionTreeModel, model = Some 1, model_name = ''DecisionTree''\<rparr>
   \<and> classifier_of (snd (get_model ''decision_tree'' demo_state)) 0
       = Some \<lparr>params = DecisionTreeClassifier 10 42, fitted = None\<rparr>
   \<and> instance_state (snd (get_model ''decision_tree'' demo_state)) 0 = Some Untrained
   \<and> fst (get_model ''random_forest'' (snd (get_model ''decision_tree'' demo_state))) \<noteq> Inr 0"
proof -
  let ?s1 = "snd (get_model ''decision_tree'' demo_state)"
  have live: "get_instance ?s1 0 \<noteq> None"
    by (simp add: get_model_decision_tree DecisionTreeModel_init_eq get_instance_def
        lookup_def demo_state_def)
  have "length (heap demo_state) = 0"
    by (simp add: demo_state_def)
  with live show ?thesis
    using get_model_registered [of "''decision_tree''" "''random_forest''" demo_state
        "fst (get_model ''decision_tree'' demo_state)" ?s1 ?s1 0
        "fst (get_model ''random_forest'' ?s1)" "snd (get_model ''random_forest'' ?s1)"]
    by simp
qed

text \<open>
  C4. For every other key the factory raises \<^verbatim>\<open>ValueError\<close>; the message names the
  key and lists the registered keys \<^verbatim>\<open>decision_tree\<close> and \<^verbatim>\<open>random_forest\<close>, in this
  order. The state is left as it was.
\<close>

theorem get_model_unknown:
  assumes "key \<notin> {''decision_tree'', ''random_forest''}"
  shows "get_model key s =
           (Inl (ValueError (''Unknown model type: '' @ key
                   @ ''. Available: ['decision_tree', 'random_forest']'')), s)"
  using assms by (simp add: get_model_def models_def repr_list_def repr_str_def)

theorem get_model_unknown_witness:
  "''svm'' \<notin> {''decision_tree'', ''random_forest''}
   \<and> get_model ''svm'' demo_state =
       (Inl (ValueError ''Unknown model type: svm. Available: ['decision_tree', 'random_forest']''),
        demo_state)"
  using get_model_unknown [of "''svm''" demo_state] by simp

subsection \<open>The states of an instance\<close>

lemma instance_state_Uninitialized:
  "instance_state s self = Some Uninitialized \<longleftrightarrow>
     (\<exists>i. get_instance s self = Some i \<and> model i = None)"
  by (auto simp: instance_state_def model_value_def split: option.splits)

lemma instance_state_Untrained:
  "instance_state s self = Some Untrained \<longleftrightarrow>
     (\<exists>i r c. get_instance s self = Some i \<and> model i = Some r
        \<and> get_classifier s r = Some c \<and> fitted c = None)"
  by (auto simp: instance_state_def model_value_def split: option.splits)

lemma instance_state_Trained:
  "instance_state s self = Some Trained \<longleftrightarrow>
     (\<exists>i r c f. get_instance s self = Some i \<and> model i = Some r
        \<and> get_classifier s r = Some c \<and> fitted c = Some f)"
  by (auto simp: instance_state_def model_value_def split: option.splits)

lemma demo_trained_eq:
  "demo_trained =
     \<lparr>heap = [Inst \<lparr>cls = DecisionTreeModel, model = Some 1, model_name = ''DecisionTree''\<rparr>,
              Clf \<lparr>params = DecisionTreeClassifier 10 42, fitted = Some 1\<rparr>],
      files = (\<lambda>p. None), writable = (\<lambda>p. p \<noteq> [])\<rparr>"
  by (simp add: demo_trained_def get_model_decision_tree DecisionTreeModel_init_eq
      demo_state_def train_def get_instance_def get_classifier_def lookup_def
      estimator_fit_def demo_library_def demo_fit_def store_def)

lemma demo_bare_eq:
  "demo_bare =
     \<lparr>heap = [Inst \<lparr>cls = ModelBase, model = None, model_name = ''BaseModel''\<rparr>],
      files = (\<lambda>p. None), writable = (\<lambda>p. p \<noteq> [])\<rparr>"
  by (simp add: demo_bare_def ModelBase_init_def alloc_def demo_state_def)

lemma demo_trained_state: "instance_state demo_trained 0 = Some Trained"
  by (simp add: demo_trained_eq instance_state_def model_value_def get_instance_def
      get_classifier_def lookup_def)

lemma demo_bare_state: "instance_state demo_bare 0 = Some Uninitialized"
  by (simp add: demo_bare_eq instance_state_def model_value_def get_instance_def lookup_def)

subsection \<open>\<^verbatim>\<open>predict\<close> and \<^verbatim>\<open>evaluate\<close>\<close>

lemma predict_Uninitialized:
  "instance_state s self = Some Uninitialized \<Longrightarrow>
     predict lib self X s = (Inl (ValueError ''Model not trained''), s)"
  by (auto simp: instance_state_Uninitialized predict_def)

lemma predict_Untrained:
  "instance_state s self = Some Untrained \<Longrightarrow> predict lib self X s = (Inl NotFittedError, s)"
  by (auto simp: instance_state_Untrained predict_def estimator_predict_def)

lemma evaluate_predict_error:
  "predict lib self X s = (Inl e, s') \<Longrightarrow> evaluate lib self X y s = (Inl e, s')"
  by (simp add: evaluate_def)

lemma snd_predict: "snd (predict lib self X s) = s"
  by (simp add: predict_def split: option.splits)

lemma snd_evaluate: "snd (evaluate lib self X y s) = s"
proof -
  obtain r where "predict lib self X s = (r, s)"
    using snd_predict [of lib self X s] by (cases "predict lib self X s") simp
  then show ?thesis
    by (simp add: evaluate_def split: sum.splits)
qed

text \<open>
  C1, as the code has it. Whenever the instance has no estimator object, \<^verbatim>\<open>predict\<close>
  raises its own error, \<^verbatim>\<open>ValueError\<close> with the message \<^verbatim>\<open>Model not trained\<close>, and
  \<^verbatim>\<open>evaluate\<close> passes that error on. Whenever the instance has an estimator object the
  check of \<^verbatim>\<open>predict\<close> does not fire, and \<^verbatim>\<open>predict\<close> returns or raises exactly what
  the estimator's own \<^verbatim>\<open>predict\<close> does. An instance fresh from the factory has an
  estimator object that was never fitted, so \<^verbatim>\<open>predict\<close> and \<^verbatim>\<open>evaluate\<close> fail on it
  with the library's \<^verbatim>\<open>NotFittedError\<close>. None of these calls changes the state.
\<close>

theorem predict_before_training:
  assumes "key \<in> {''decision_tree'', ''random_forest''}"
    and "get_model key s = (Inr self, s1)"
    and "instance_state s0 r = Some Uninitialized"
    and "classifier_of s2 r2 = Some c"
  shows "predict lib self X s1 = (Inl NotFittedError, s1)
    \<and> evaluate lib self X y s1 = (Inl NotFittedError, s1)
    \<and> predict lib r X s0 = (Inl (ValueError ''Model not trained''), s0)
    \<and> evaluate lib r X y s0 = (Inl (ValueError ''Model not trained''), s0)
    \<and> predict lib r2 X s2 = (estimator_predict lib c X, s2)"
proof -
  from assms(1) have "key = ''decision_tree'' \<or> key = ''random_forest''" by simp
  with assms(2) have "instance_state s1 self = Some Untrained"
    by (auto simp: get_model_decision_tree get_model_random_forest
        instance_state_fresh_decision_tree instance_state_fresh_random_forest)
  then have p: "predict lib self X s1 = (Inl NotFittedError, s1)"
    by (rule predict_Untrained)
  from assms(3) have q: "predict lib r X s0 = (Inl (ValueError ''Model not trained''), s0)"
    by (rule predict_Uninitialized)
  from assms(4) have t: "predict lib r2 X s2 = (estimator_predict lib c X, s2)"
    by (auto simp: classifier_of_def predict_def split: option.splits)
  from p q t show ?thesis
    by (simp add: evaluate_predict_error)
qed

theorem predict_before_training_witness:
  "''random_forest'' \<in> {''decision_tree'', ''random_forest''}
   \<and> get_model ''random_forest'' demo_state
        = (Inr 0, snd (get_model ''random_forest'' demo_state))
   \<and> instance_state demo_bare 0 = Some Uninitialized
   \<and> classifier_of demo_trained 0
        = Some \<lparr>params = DecisionTreeClassifier 10 42, fitted = Some 1\<rparr>
   \<and> predict demo_library 0 [7] (snd (get_model ''random_forest'' demo_state))
        = (Inl NotFittedError, snd (get_model ''random_forest'' demo_state))
   \<and> evaluate demo_library 0 [7] [1] (snd (get_model ''random_forest'' demo_state))
        = (Inl NotFittedError, snd (get_model ''random_forest'' demo_state))
   \<and> predict demo_library 0 [7] demo_bare = (Inl (ValueError ''Model not trained''), demo_bare)
   \<and> evaluate demo_library 0 [7] [1] demo_bare
        = (Inl (ValueError ''Model not trained''), demo_bare)
   \<and> predict demo_library 0 [7] demo_trained = (Inr [1], demo_trained)"
proof -
  have k: "''random_forest'' \<in> {''decision_tree'', ''random_forest''}"
    by simp
  have g: "get_model ''random_forest'' demo_state
             = (Inr 0, snd (get_model ''random_forest'' demo_state))"
    by (simp add: get_model_random_forest demo_state_def)
  have c: "classifier_of demo_trained 0
             = Some \<lparr>params = DecisionTreeClassifier 10 42, fitted = Some 1\<rparr>"
    by (simp add: demo_trained_eq classifier_of_def get_instance_def get_classifier_def
        lookup_def)
  have e: "estimator_predict demo_library
             \<lparr>params = DecisionTreeClassifier 10 42, fitted = Some 1\<rparr> [7] = Inr [1]"
    by (simp add: estimator_predict_def demo_library_def demo_predict_def)
  from predict_before_training [OF k g demo_bare_state c, of demo_library "[7]" "[1]"]
    g demo_bare_state c e
  show ?thesis by simp
qed

text \<open>
  The claim as the specification words it fails on an instance fresh from the factory:
  the error is not the module's \<^verbatim>\<open>Model not trained\<close>.
\<close>

theorem predict_fresh_counterexample:
  "fst (get_model ''decision_tree'' demo_state) = Inr 0
   \<and> instance_state (snd (get_model ''decision_tree'' demo_state)) 0 = Some Untrained
   \<and> fst (predict demo_library 0 [7] (snd (get_model ''decision_tree'' demo_state)))
        = Inl NotFittedError
   \<and> fst (predict demo_library 0 [7] (snd (get_model ''decision_tree'' demo_state)))
        \<noteq> Inl (ValueError ''Model not trained'')
   \<and> fst (evaluate demo_library 0 [7] [1] (snd (get_model ''decision_tree'' demo_state)))
        \<noteq> Inl (ValueError ''Model not trained'')"
proof -
  have st: "instance_state (snd (get_model ''decision_tree'' demo_state)) 0 = Some Untrained"
    using instance_state_fresh_decision_tree [of None None demo_state]
    by (simp add: get_model_decision_tree demo_state_def)
  have g: "fst (get_model ''decision_tree'' demo_state) = Inr 0"
    by (simp add: get_model_decision_tree demo_state_def)
  from st g show ?thesis
    by (simp add: predict_Untrained evaluate_predict_error [OF predict_Untrained])
qed

text \<open>
  C2. Whenever the prediction and the two metric calls succeed, \<^verbatim>\<open>evaluate\<close> returns a
  dictionary with exactly the keys \<^verbatim>\<open>precision\<close>, \<^verbatim>\<open>recall\<close> and \<^verbatim>\<open>f1_score\<close>.
  Precision and recall are what the library's metrics return for
  \<^verbatim>\<open>average='weighted'\<close> and \<^verbatim>\<open>zero_division=0\<close> on the true and the predicted
  labels; \<^verbatim>\<open>f1_score\<close> is \<open>2PR/(P+R)\<close> of these two values when \<open>P + R > 0\<close>, and \<open>0\<close>
  otherwise, without a division. Scores are taken as real numbers.
\<close>

theorem evaluate_result:
  assumes "predict lib self X_test s = (Inr y_pred, s')"
    and "precision_score lib y_test y_pred Weighted 0 = Inr P"
    and "recall_score lib y_test y_pred Weighted 0 = Inr R"
  shows "evaluate lib self X_test y_test s =
           (Inr [(''precision'', P), (''recall'', R),
                 (''f1_score'', if P + R > 0 then 2 * P * R / (P + R) else 0)], s)"
proof -
  from assms(1) have "s' = s"
    using snd_predict [of lib self X_test s] by simp
  with assms show ?thesis
    by (simp add: evaluate_def)
qed

lemma demo_trained_predict:
  "predict demo_library 0 X demo_trained = (Inr (replicate (length X) 1), demo_trained)"
  by (simp add: demo_trained_eq predict_def get_instance_def get_classifier_def lookup_def
      estimator_predict_def demo_library_def demo_predict_def)

lemma demo_precision_mixed: "demo_precision [1, 1, 0, 1] [1, 1, 1, 1] Weighted 0 = Inr (9 / 16)"
  by (simp add: demo_precision_def weighted_average_def true_positives_def)

lemma demo_recall_mixed: "demo_recall [1, 1, 0, 1] [1, 1, 1, 1] Weighted 0 = Inr (3 / 4)"
  by (simp add: demo_recall_def weighted_average_def true_positives_def)

lemma demo_precision_none: "demo_precision [0, 0] [1, 1] Weighted 0 = Inr 0"
  by (simp add: demo_precision_def weighted_average_def true_positives_def)

lemma demo_recall_none: "demo_recall [0, 0] [1, 1] Weighted 0 = Inr 0"
  by (simp add: demo_recall_def weighted_average_def true_positives_def)

theorem evaluate_result_witness:
  "predict demo_library 0 [5, 6, 7, 8] demo_trained = (Inr [1, 1, 1, 1], demo_trained)
   \<and> precision_score demo_library [1, 1, 0, 1] [1, 1, 1, 1] Weighted 0 = Inr (9 / 16)
   \<and> recall_score demo_library [1, 1, 0, 1] [1, 1, 1, 1] Weighted 0 = Inr (3 / 4)
   \<and> evaluate demo_library 0 [5, 6, 7, 8] [1, 1, 0, 1] demo_trained
        = (Inr [(''precision'', 9 / 16), (''recall'', 3 / 4), (''f1_score'', 9 / 14)], demo_trained)
   \<and> predict demo_library 0 [5, 6] demo_trained = (Inr [1, 1], demo_trained)
   \<and> precision_score demo_library [0, 0] [1, 1] Weighted 0 = Inr 0
   \<and> recall_score demo_library [0, 0] [1, 1] Weighted 0 = Inr 0
   \<and> evaluate demo_library 0 [5, 6] [0, 0] demo_trained
        = (Inr [(''precision'', 0), (''recall'', 0), (''f1_score'', 0)], demo_trained)"
proof -
  have p1: "predict demo_library 0 [5, 6, 7, 8] demo_trained = (Inr [1, 1, 1, 1], demo_trained)"
    using demo_trained_predict [of "[5, 6, 7, 8]"] by (simp add: numeral_eq_Suc)
  have a1: "precision_score demo_library [1, 1, 0, 1] [1, 1, 1, 1] Weighted 0 = Inr (9 / 16)"
    using demo_precision_mixed by (simp add: demo_library_def)
  have b1: "recall_score demo_library [1, 1, 0, 1] [1, 1, 1, 1] Weighted 0 = Inr (3 / 4)"
    using demo_recall_mixed by (simp add: demo_library_def)
  have p2: "predict demo_library 0 [5, 6] demo_trained = (Inr [1, 1], demo_trained)"
    using demo_trained_predict [of "[5, 6]"] by (simp add: numeral_eq_Suc)
  have a2: "precision_score demo_library [0, 0] [1, 1] Weighted 0 = Inr 0"
    using demo_precision_none by (simp add: demo_library_def)
  have b2: "recall_score demo_library [0, 0] [1, 1] Weighted 0 = Inr 0"
    using demo_recall_none by (simp add: demo_library_def)
  from evaluate_result [OF p1 a1 b1] evaluate_result [OF p2 a2 b2] p1 a1 b1 p2 a2 b2
  show ?thesis by simp
qed

subsection \<open>\<^verbatim>\<open>train\<close>\<close>

lemma get_instance_store_Clf:
  "get_instance (store r (Clf c) s) r' =
     (if r' = r \<and> r < length (heap s) then None else get_instance s r')"
  by (simp add: get_instance_def lookup_store)

lemma get_classifier_store_Clf:
  "get_classifier (store r (Clf c) s) r' =
     (if r' = r \<and> r < length (heap s) then Some c else get_classifier s r')"
  by (simp add: get_classifier_def lookup_store)

lemma get_instance_store_Inst:
  "get_instance (store r (Inst i) s) r' =
     (if r' = r \<and> r < length (heap s) then Some i else get_instance s r')"
  by (simp add: get_instance_def lookup_store)

lemma get_classifier_store_Inst:
  "get_classifier (store r (Inst i) s) r' =
     (if r' = r \<and> r < length (heap s) then None else get_classifier s r')"
  by (simp add: get_classifier_def lookup_store)

lemma train_Uninitialized:
  "instance_state s self = Some Uninitialized \<Longrightarrow>
     train lib self X y s = (Inl (ValueError ''Model not initialized''), s)"
  by (auto simp: instance_state_Uninitialized train_def)

lemma train_fitted:
  assumes "get_instance s self = Some i" and "model i = Some r"
    and "get_classifier s r = Some c" and "fit_impl lib (params c) X y = Inr f"
  shows "train lib self X y s = (Inr (), store r (Clf (c\<lparr>fitted := Some f\<rparr>)) s)"
  using assms by (simp add: train_def estimator_fit_def)

text \<open>
  C6. \<^verbatim>\<open>train\<close> on an instance without an estimator object raises \<^verbatim>\<open>ValueError\<close>
  with the message \<^verbatim>\<open>Model not initialized\<close> and changes nothing. Otherwise, when the
  library's fit succeeds, \<^verbatim>\<open>train\<close> returns \<^verbatim>\<open>None\<close>; the instance still refers to
  the same estimator object, which now holds what was learned, so the instance is
  trained; no other object and no file is touched.
\<close>

theorem train_behaviour:
  "(instance_state s self = Some Uninitialized \<longrightarrow>
      train lib self X y s = (Inl (ValueError ''Model not initialized''), s))
   \<and> (get_instance s self = Some i \<and> model i = Some r \<and> get_classifier s r = Some c
        \<and> fit_impl lib (params c) X y = Inr f \<longrightarrow>
      fst (train lib self X y s) = Inr ()
      \<and> get_instance (snd (train lib self X y s)) self = Some i
      \<and> get_classifier (snd (train lib self X y s)) r = Some (c\<lparr>fitted := Some f\<rparr>)
      \<and> instance_state (snd (train lib self X y s)) self = Some Trained
      \<and> (\<forall>r'. r' \<noteq> r \<longrightarrow> lookup (snd (train lib self X y s)) r' = lookup s r')
      \<and> files (snd (train lib self X y s)) = files s)"
proof (intro conjI impI)
  assume "instance_state s self = Some Uninitialized"
  then show "train lib self X y s = (Inl (ValueError ''Model not initialized''), s)"
    by (rule train_Uninitialized)
next
  assume a: "get_instance s self = Some i \<and> model i = Some r \<and> get_classifier s r = Some c
        \<and> fit_impl lib (params c) X y = Inr f"
  then have t: "train lib self X y s = (Inr (), store r (Clf (c\<lparr>fitted := Some f\<rparr>)) s)"
    by (simp add: train_fitted)
  from a have ne: "self \<noteq> r"
    by (auto dest: instance_not_classifier)
  from a have lt: "r < length (heap s)"
    by (auto dest: get_classifier_lt)
  show "fst (train lib self X y s) = Inr ()"
    by (simp add: t)
  show i': "get_instance (snd (train lib self X y s)) self = Some i"
    using a ne by (simp add: t get_instance_store_Clf)
  show c': "get_classifier (snd (train lib self X y s)) r = Some (c\<lparr>fitted := Some f\<rparr>)"
    using lt by (simp add: t get_classifier_store_Clf)
  show "instance_state (snd (train lib self X y s)) self = Some Trained"
    using a i' c' by (auto simp: instance_state_Trained)
  show "\<forall>r'. r' \<noteq> r \<longrightarrow> lookup (snd (train lib self X y s)) r' = lookup s r'"
    by (simp add: t lookup_store)
  show "files (snd (train lib self X y s)) = files s"
    by (simp add: t files_store)
qed

theorem train_behaviour_witness:
  "instance_state demo_bare 0 = Some Uninitialized
   \<and> train demo_library 0 [1, 2, 3, 4] [1, 0, 1, 1] demo_bare
        = (Inl (ValueError ''Model not initialized''), demo_bare)
   \<and> instance_state (snd (get_model ''decision_tree'' demo_state)) 0 = Some Untrained
   \<and> fst (train demo_library 0 [1, 2, 3, 4] [1, 0, 1, 1]
            (snd (get_model ''decision_tree'' demo_state))) = Inr ()
   \<and> get_instance demo_trained 0
        = Some \<lparr>cls = DecisionTreeModel, model = Some 1, model_name = ''DecisionTree''\<rparr>
   \<and> get_classifier demo_trained 1
        = Some \<lparr>params = DecisionTreeClassifier 10 42, fitted = Some 1\<rparr>
   \<and> instance_state demo_trained 0 = Some Trained"
proof -
  let ?s = "snd (get_model ''decision_tree'' demo_state)"
  let ?i = "\<lparr>cls = DecisionTreeModel, model = Some 1, model_name = ''DecisionTree''\<rparr>"
  let ?c = "\<lparr>params = DecisionTreeClassifier 10 42, fitted = None :: nat option\<rparr>"
  have s: "?s = \<lparr>heap = [Inst ?i, Clf ?c], files = (\<lambda>p. None), writable = (\<lambda>p. p \<noteq> [])\<rparr>"
    by (simp add: get_model_decision_tree DecisionTreeModel_init_eq demo_state_def)
  have h: "get_instance ?s 0 = Some ?i \<and> model ?i = Some 1 \<and> get_classifier ?s 1 = Some ?c
        \<and> fit_impl demo_library (params ?c) [1, 2, 3, 4] [1, 0, 1, 1] = Inr 1"
    by (simp add: s get_instance_def get_classifier_def lookup_def demo_library_def demo_fit_def)
  have u: "instance_state ?s 0 = Some Untrained"
    using h by (auto simp: instance_state_Untrained)
  show ?thesis
    using train_behaviour [of demo_bare 0 demo_library "[1, 2, 3, 4]" "[1, 0, 1, 1]" ?i 1 ?c 1]
      train_behaviour [of ?s 0 demo_library "[1, 2, 3, 4]" "[1, 0, 1, 1]" ?i 1 ?c 1]
      h u demo_bare_state
    by (simp add: demo_trained_def)
qed

subsection \<open>What \<^verbatim>\<open>predict\<close>, \<^verbatim>\<open>evaluate\<close> and \<^verbatim>\<open>save\<close> leave alone\<close>

lemma heap_save: "heap (snd (save lib self path s)) = heap s"
  by (simp add: save_def split: option.splits)

lemma writable_save: "writable (snd (save lib self path s)) = writable s"
  by (simp add: save_def split: option.splits)

lemma files_save_other: "p \<noteq> path \<Longrightarrow> files (snd (save lib self path s)) p = files s p"
  by (simp add: save_def split: option.splits)

lemma lookup_heap_cong: "heap s' = heap s \<Longrightarrow> lookup s' r = lookup s r"
  by (simp add: lookup_def)

lemma get_instance_heap_cong: "heap s' = heap s \<Longrightarrow> get_instance s' r = get_instance s r"
  by (simp add: get_instance_def lookup_def)

lemma get_classifier_heap_cong: "heap s' = heap s \<Longrightarrow> get_classifier s' r = get_classifier s r"
  by (simp add: get_classifier_def lookup_def)

lemma classifier_of_heap_cong:
  assumes "heap s' = heap s"
  shows "classifier_of s' r = classifier_of s r"
proof -
  have i: "get_instance s' = get_instance s"
    using assms by (simp add: fun_eq_iff get_instance_def lookup_def)
  have c: "get_classifier s' = get_classifier s"
    using assms by (simp add: fun_eq_iff get_classifier_def lookup_def)
  show ?thesis
    unfolding classifier_of_def i c ..
qed

lemma instance_state_heap_cong:
  assumes "heap s' = heap s"
  shows "instance_state s' r = instance_state s r"
proof -
  have i: "get_instance s' = get_instance s"
    using assms by (simp add: fun_eq_iff get_instance_def lookup_def)
  have c: "get_classifier s' = get_classifier s"
    using assms by (simp add: fun_eq_iff get_classifier_def lookup_def)
  show ?thesis
    unfolding instance_state_def model_value_def i c ..
qed

text \<open>
  C8. On a trained instance \<^verbatim>\<open>predict\<close> and \<^verbatim>\<open>evaluate\<close> return the state they were
  given, whether they succeed or raise. \<^verbatim>\<open>save\<close> changes no object: the instance has
  the same attributes, \<^verbatim>\<open>model_name\<close> among them, and refers to the same estimator
  object with the same content, and it is still trained; the only file that may differ
  afterwards is the one saved to.
\<close>

theorem trained_operations_frame:
  assumes "instance_state s self = Some Trained"
  shows "snd (predict lib self X s) = s
    \<and> snd (evaluate lib self X y s) = s
    \<and> heap (snd (save lib self path s)) = heap s
    \<and> get_instance (snd (save lib self path s)) self = get_instance s self
    \<and> classifier_of (snd (save lib self path s)) self = classifier_of s self
    \<and> instance_state (snd (save lib self path s)) self = Some Trained
    \<and> (\<forall>p. p \<noteq> path \<longrightarrow> files (snd (save lib self path s)) p = files s p)"
  using assms
  by (simp add: snd_predict snd_evaluate heap_save files_save_other
      get_instance_heap_cong [OF heap_save] classifier_of_heap_cong [OF heap_save]
      instance_state_heap_cong [OF heap_save])

theorem trained_operations_frame_witness:
  "instance_state demo_trained 0 = Some Trained
   \<and> snd (predict demo_library 0 [5] demo_trained) = demo_trained
   \<and> snd (evaluate demo_library 0 [5] [1] demo_trained) = demo_trained
   \<and> heap (snd (save demo_library 0 ''model.pkl'' demo_trained)) = heap demo_trained
   \<and> instance_state (snd (save demo_library 0 ''model.pkl'' demo_trained)) 0 = Some Trained"
  using trained_operations_frame [of demo_trained 0 demo_library "[5]" "[1]" "''model.pkl''"]
    demo_trained_state
  by simp

subsection \<open>\<^verbatim>\<open>save\<close> and \<^verbatim>\<open>load\<close>\<close>

lemma save_ok:
  assumes "get_instance s self = Some i" and "writable s path" and "model_value s i = Some v"
  shows "save lib self path s = (Inr (), s\<lparr>files := (files s)(path \<mapsto> pickle_dumps lib v)\<rparr>)"
  using assms by (simp add: save_def)

lemma model_value_of_classifier:
  "classifier_of s self = Some c \<Longrightarrow>
     \<exists>i. get_instance s self = Some i \<and> model_value s i = Some (Some c)"
  by (auto simp: classifier_of_def model_value_def split: option.splits)

lemma model_value_Uninitialized:
  "instance_state s self = Some Uninitialized \<Longrightarrow>
     \<exists>i. get_instance s self = Some i \<and> model_value s i = Some None"
  by (auto simp: instance_state_Uninitialized model_value_def)

lemma load_ok:
  assumes "get_instance s self = Some i" and "files s path = Some blob"
    and "pickle_loads lib blob = Inr v"
  shows "load lib self path s =
           (Inr (),
            case v of
              None \<Rightarrow> store self (Inst (i\<lparr>model := None\<rparr>)) s
            | Some c \<Rightarrow> store self (Inst (i\<lparr>model := Some (length (heap s))\<rparr>))
                          (s\<lparr>heap := heap s @ [Clf c]\<rparr>))"
proof -
  from assms(1) have lt: "self < length (heap s)"
    by (rule get_instance_lt)
  have "get_instance (s\<lparr>heap := heap s @ [Clf c]\<rparr>) self = Some i" for c :: "'a classifier"
    using assms(1) lt by (simp add: get_instance_def lookup_def nth_append)
  with assms show ?thesis
    by (simp add: load_def set_model_def alloc_def split: option.splits)
qed

lemma load_result:
  assumes "get_instance s self = Some i" and "files s path = Some blob"
    and "pickle_loads lib blob = Inr v"
  shows "fst (load lib self path s) = Inr ()"
    and "get_instance (snd (load lib self path s)) self =
           Some (i\<lparr>model := (case v of None \<Rightarrow> None | Some c \<Rightarrow> Some (length (heap s)))\<rparr>)"
    and "classifier_of (snd (load lib self path s)) self = v"
    and "files (snd (load lib self path s)) = files s"
    and "\<And>r. r \<noteq> self \<Longrightarrow> r < length (heap s) \<Longrightarrow>
           lookup (snd (load lib self path s)) r = lookup s r"
proof -
  from assms(1) have lt: "self < length (heap s)"
    by (rule get_instance_lt)
  note l = load_ok [OF assms]
  show "fst (load lib self path s) = Inr ()"
    by (simp add: l)
  show "get_instance (snd (load lib self path s)) self =
           Some (i\<lparr>model := (case v of None \<Rightarrow> None | Some c \<Rightarrow> Some (length (heap s)))\<rparr>)"
    using lt by (cases v) (simp_all add: l get_instance_store_Inst)
  show "classifier_of (snd (load lib self path s)) self = v"
  proof (cases v)
    case None
    with lt show ?thesis
      by (simp add: l classifier_of_def get_instance_store_Inst)
  next
    case (Some c)
    have "get_classifier (s\<lparr>heap := heap s @ [Clf c]\<rparr>) (length (heap s)) = Some c"
      by (simp add: get_classifier_def lookup_def)
    with Some lt show ?thesis
      by (simp add: l classifier_of_def get_instance_store_Inst get_classifier_store_Inst)
  qed
  show "files (snd (load lib self path s)) = files s"
    by (cases v) (simp_all add: l files_store)
  show "lookup (snd (load lib self path s)) r = lookup s r"
    if "r \<noteq> self" and "r < length (heap s)" for r
    using that by (cases v) (simp_all add: l lookup_store, simp add: lookup_def nth_append)
qed

lemma instance_state_of_classifier:
  "get_instance s self \<noteq> None \<Longrightarrow>
   get_instance s self = Some i \<Longrightarrow> (model i = None \<longleftrightarrow> v = None) \<Longrightarrow>
   classifier_of s self = v \<Longrightarrow>
   instance_state s self =
     Some (case v of
             None \<Rightarrow> Uninitialized
           | Some c \<Rightarrow> (case fitted c of None \<Rightarrow> Untrained | Some f \<Rightarrow> Trained))"
  by (auto simp: instance_state_def classifier_of_def model_value_def split: option.splits)

lemma predict_classifier_of:
  "classifier_of s self = Some c \<Longrightarrow> fst (predict lib self X s) = estimator_predict lib c X"
  by (auto simp: classifier_of_def predict_def split: option.splits)

lemma demo_saved_eq:
  "demo_saved =
     \<lparr>heap = [Inst \<lparr>cls = DecisionTreeModel, model = Some 1, model_name = ''DecisionTree''\<rparr>,
              Clf \<lparr>params = DecisionTreeClassifier 10 42, fitted = Some 1\<rparr>,
              Inst \<lparr>cls = DecisionTreeModel, model = Some 3, model_name = ''DecisionTree''\<rparr>,
              Clf \<lparr>params = DecisionTreeClassifier 10 42, fitted = None\<rparr>],
      files = (\<lambda>p. None)(''model.pkl'' \<mapsto>
                Some \<lparr>params = DecisionTreeClassifier 10 42, fitted = Some 1\<rparr>),
      writable = (\<lambda>p. p \<noteq> [])\<rparr>"
  by (simp add: demo_saved_def demo_trained_eq save_def get_instance_def get_classifier_def
      lookup_def model_value_def demo_library_def get_model_decision_tree
      DecisionTreeModel_init_eq)

lemma demo_none_saved_eq:
  "demo_none_saved =
     \<lparr>heap = [Inst \<lparr>cls = ModelBase, model = None, model_name = ''BaseModel''\<rparr>,
              Inst \<lparr>cls = RandomForestModel, model = Some 2, model_name = ''RandomForest''\<rparr>,
              Clf \<lparr>params = RandomForestClassifier 100 10 42, fitted = None\<rparr>],
      files = (\<lambda>p. None)(''none.pkl'' \<mapsto> None),
      writable = (\<lambda>p. p \<noteq> [])\<rparr>"
  by (simp add: demo_none_saved_def demo_bare_eq save_def get_instance_def lookup_def
      model_value_def demo_library_def get_model_random_forest RandomForestModel_init_eq)

lemma demo_stale_eq:
  "demo_stale =
     \<lparr>heap = [Inst \<lparr>cls = DecisionTreeModel, model = Some 1, model_name = ''DecisionTree''\<rparr>,
              Clf \<lparr>params = DecisionTreeClassifier 10 42, fitted = Some 1\<rparr>],
      files = (\<lambda>p. None)(''fresh.pkl'' \<mapsto>
                Some \<lparr>params = DecisionTreeClassifier 10 42, fitted = None\<rparr>),
      writable = (\<lambda>p. p \<noteq> [])\<rparr>"
  by (simp add: demo_stale_def get_model_decision_tree DecisionTreeModel_init_eq demo_state_def
      save_def train_def get_instance_def get_classifier_def lookup_def model_value_def
      estimator_fit_def demo_library_def demo_fit_def store_def)

text \<open>
  C7, as the code has it. \<^verbatim>\<open>load\<close> on an existing file whose content deserialises,
  whatever the state of the instance before: it returns \<^verbatim>\<open>None\<close>; the instance keeps
  its class and its name and now refers to the deserialised object, a new object when
  it is an estimator; nothing is checked about that object, and the instance is in the
  state that object gives it: trained when it is a fitted estimator, untrained when it
  is an estimator never fitted, without estimator when it is \<^verbatim>\<open>None\<close>. No file
  changes.
\<close>

theorem load_behaviour:
  assumes "get_instance s self = Some i"
    and "files s path = Some blob"
    and "pickle_loads lib blob = Inr v"
  shows "fst (load lib self path s) = Inr ()
    \<and> get_instance (snd (load lib self path s)) self =
        Some (i\<lparr>model := (case v of None \<Rightarrow> None | Some c \<Rightarrow> Some (length (heap s)))\<rparr>)
    \<and> lookup s (length (heap s)) = None
    \<and> classifier_of (snd (load lib self path s)) self = v
    \<and> instance_state (snd (load lib self path s)) self =
        Some (case v of
                None \<Rightarrow> Uninitialized
              | Some c \<Rightarrow> (case fitted c of None \<Rightarrow> Untrained | Some f \<Rightarrow> Trained))
    \<and> files (snd (load lib self path s)) = files s"
proof -
  note r = load_result [OF assms]
  have "instance_state (snd (load lib self path s)) self =
        Some (case v of
                None \<Rightarrow> Uninitialized
              | Some c \<Rightarrow> (case fitted c of None \<Rightarrow> Untrained | Some f \<Rightarrow> Trained))"
    by (rule instance_state_of_classifier [OF _ r(2) _ r(3)])
      (simp_all add: r(2) split: option.splits)
  with r(1-4) show ?thesis
    by (simp add: lookup_def)
qed

theorem load_behaviour_witness:
  "get_instance demo_saved 2 =
     Some \<lparr>cls = DecisionTreeModel, model = Some 3, model_name = ''DecisionTree''\<rparr>
   \<and> files demo_saved ''model.pkl'' =
       Some (Some \<lparr>params = DecisionTreeClassifier 10 42, fitted = Some 1\<rparr>)
   \<and> instance_state demo_saved 2 = Some Untrained
   \<and> fst (load demo_library 2 ''model.pkl'' demo_saved) = Inr ()
   \<and> get_instance (snd (load demo_library 2 ''model.pkl'' demo_saved)) 2 =
       Some \<lparr>cls = DecisionTreeModel, model = Some 4, model_name = ''DecisionTree''\<rparr>
   \<and> classifier_of (snd (load demo_library 2 ''model.pkl'' demo_saved)) 2 =
       Some \<lparr>params = DecisionTreeClassifier 10 42, fitted = Some 1\<rparr>
   \<and> instance_state (snd (load demo_library 2 ''model.pkl'' demo_saved)) 2 = Some Trained"
proof -
  let ?i = "\<lparr>cls = DecisionTreeModel, model = Some 3, model_name = ''DecisionTree''\<rparr>"
  let ?c = "\<lparr>params = DecisionTreeClassifier 10 42, fitted = Some (1::nat)\<rparr>"
  have i: "get_instance demo_saved 2 = Some ?i"
    by (simp add: demo_saved_eq get_instance_def lookup_def)
  have f: "files demo_saved ''model.pkl'' = Some (Some ?c)"
    by (simp add: demo_saved_eq)
  have p: "pickle_loads demo_library (Some ?c) = Inr (Some ?c)"
    by (simp add: demo_library_def)
  have u: "instance_state demo_saved 2 = Some Untrained"
    by (simp add: demo_saved_eq instance_state_def model_value_def get_instance_def
        get_classifier_def lookup_def)
  have n: "length (heap demo_saved) = 4"
    by (simp add: demo_saved_eq)
  from load_behaviour [OF i f p] i f u n show ?thesis
    by simp
qed

text \<open>
  The claim as the specification words it fails: a trained instance that loads a
  file saved before its training is untrained afterwards.
\<close>

theorem load_untrained_counterexample:
  "instance_state demo_stale 0 = Some Trained
   \<and> files demo_stale ''fresh.pkl'' =
       Some (pickle_dumps demo_library
               (Some \<lparr>params = DecisionTreeClassifier 10 42, fitted = None\<rparr>))
   \<and> fst (load demo_library 0 ''fresh.pkl'' demo_stale) = Inr ()
   \<and> instance_state (snd (load demo_library 0 ''fresh.pkl'' demo_stale)) 0 = Some Untrained
   \<and> instance_state (snd (load demo_library 0 ''fresh.pkl'' demo_stale)) 0 \<noteq> Some Trained
   \<and> fst (predict demo_library 0 [5] (snd (load demo_library 0 ''fresh.pkl'' demo_stale)))
       = Inl NotFittedError"
proof -
  let ?i = "\<lparr>cls = DecisionTreeModel, model = Some 1, model_name = ''DecisionTree''\<rparr>"
  let ?c = "\<lparr>params = DecisionTreeClassifier 10 42, fitted = None :: nat option\<rparr>"
  have t: "instance_state demo_stale 0 = Some Trained"
    by (simp add: demo_stale_eq instance_state_def model_value_def get_instance_def
        get_classifier_def lookup_def)
  have i: "get_instance demo_stale 0 = Some ?i"
    by (simp add: demo_stale_eq get_instance_def lookup_def)
  have f: "files demo_stale ''fresh.pkl'' = Some (Some ?c)"
    by (simp add: demo_stale_eq)
  have p: "pickle_loads demo_library (Some ?c) = Inr (Some ?c)"
    by (simp add: demo_library_def)
  note r = load_result [OF i f p]
  have u: "instance_state (snd (load demo_library 0 ''fresh.pkl'' demo_stale)) 0 = Some Untrained"
    using instance_state_of_classifier [OF _ r(2) _ r(3)] by (simp add: r(2))
  from t f r(1) u show ?thesis
    by (simp add: predict_Untrained demo_library_def)
qed

text \<open>
  C5. A trained instance is saved: the file holds the serialised estimator object and
  nothing else. When the serialiser gives that object back, loading the file into any
  instance, such as one fresh from the factory, succeeds; that instance keeps its class
  and name, refers to a new estimator object with the content of the saved one, is
  trained, and \<^verbatim>\<open>predict\<close> on it gives for every input what \<^verbatim>\<open>predict\<close> gave on the
  instance that was saved.
\<close>

theorem save_load_roundtrip:
  assumes "instance_state s a = Some Trained"
    and "classifier_of s a = Some c"
    and "writable s path"
    and "pickle_loads lib (pickle_dumps lib (Some c)) = Inr (Some c)"
    and "files s2 path = files (snd (save lib a path s)) path"
    and "get_instance s2 b = Some ib"
  shows "fst (save lib a path s) = Inr ()
    \<and> files (snd (save lib a path s)) path = Some (pickle_dumps lib (Some c))
    \<and> fst (load lib b path s2) = Inr ()
    \<and> get_instance (snd (load lib b path s2)) b = Some (ib\<lparr>model := Some (length (heap s2))\<rparr>)
    \<and> classifier_of (snd (load lib b path s2)) b = Some c
    \<and> instance_state (snd (load lib b path s2)) b = Some Trained
    \<and> fst (predict lib b X (snd (load lib b path s2))) = fst (predict lib a X s)"
proof -
  from assms(2) obtain i where i: "get_instance s a = Some i" "model_value s i = Some (Some c)"
    by (auto dest: model_value_of_classifier)
  note sv = save_ok [OF i(1) assms(3) i(2), of lib]
  have f: "files s2 path = Some (pickle_dumps lib (Some c))"
    by (simp add: assms(5) sv)
  note r = load_result [OF assms(6) f assms(4)]
  from assms(1,2) obtain l where l: "fitted c = Some l"
    by (auto simp: instance_state_Trained classifier_of_def)
  have st: "instance_state (snd (load lib b path s2)) b = Some Trained"
    using instance_state_of_classifier [OF _ r(2) _ r(3)] l by (simp add: r(2))
  have pr: "fst (predict lib b X (snd (load lib b path s2))) = fst (predict lib a X s)"
    by (simp add: predict_classifier_of [OF r(3)] predict_classifier_of [OF assms(2)])
  from sv r(1-3) st pr show ?thesis
    by simp
qed

theorem save_load_roundtrip_witness:
  "instance_state demo_trained 0 = Some Trained
   \<and> classifier_of demo_trained 0 =
       Some \<lparr>params = DecisionTreeClassifier 10 42, fitted = Some 1\<rparr>
   \<and> files (snd (save demo_library 0 ''model.pkl'' demo_trained)) ''model.pkl'' =
       Some (Some \<lparr>params = DecisionTreeClassifier 10 42, fitted = Some 1\<rparr>)
   \<and> instance_state demo_saved 2 = Some Untrained
   \<and> fst (load demo_library 2 ''model.pkl'' demo_saved) = Inr ()
   \<and> instance_state (snd (load demo_library 2 ''model.pkl'' demo_saved)) 2 = Some Trained
   \<and> fst (predict demo_library 2 [5, 6] (snd (load demo_library 2 ''model.pkl'' demo_saved)))
       = Inr [1, 1]
   \<and> fst (predict demo_library 0 [5, 6] demo_trained) = Inr [1, 1]"
proof -
  let ?ib = "\<lparr>cls = DecisionTreeModel, model = Some 3, model_name = ''DecisionTree''\<rparr>"
  let ?c = "\<lparr>params = DecisionTreeClassifier 10 42, fitted = Some (1::nat)\<rparr>"
  have c: "classifier_of demo_trained 0 = Some ?c"
    by (simp add: demo_trained_eq classifier_of_def get_instance_def get_classifier_def
        lookup_def)
  have w: "writable demo_trained ''model.pkl''"
    by (simp add: demo_trained_eq)
  have p: "pickle_loads demo_library (pickle_dumps demo_library (Some ?c)) = Inr (Some ?c)"
    by (simp add: demo_library_def)
  have sv: "files (snd (save demo_library 0 ''model.pkl'' demo_trained)) ''model.pkl''
              = Some (Some ?c)"
    by (simp add: demo_trained_eq save_def get_instance_def get_classifier_def lookup_def
        model_value_def demo_library_def)
  have f: "files demo_saved ''model.pkl''
             = files (snd (save demo_library 0 ''model.pkl'' demo_trained)) ''model.pkl''"
    by (simp add: sv) (simp add: demo_saved_eq)
  have b: "get_instance demo_saved 2 = Some ?ib"
    by (simp add: demo_saved_eq get_instance_def lookup_def)
  have u: "instance_state demo_saved 2 = Some Untrained"
    by (simp add: demo_saved_eq instance_state_def model_value_def get_instance_def
        get_classifier_def lookup_def)
  have q: "fst (predict demo_library 0 [5, 6] demo_trained) = Inr [1, 1]"
    using demo_trained_predict [of "[5, 6]"] by (simp add: numeral_eq_Suc)
  from save_load_roundtrip [OF demo_trained_state c w p f b, of "[5, 6]"]
    demo_trained_state c sv u q
  show ?thesis by simp
qed

text \<open>
  C10. On an instance without estimator object, such as a bare \<^verbatim>\<open>ModelBase()\<close>,
  \<^verbatim>\<open>save\<close> to a writable path does not raise: it returns \<^verbatim>\<open>None\<close>, and the file holds
  the serialised \<^verbatim>\<open>None\<close>. When the serialiser gives \<^verbatim>\<open>None\<close> back, loading that file
  into any instance succeeds and leaves it without estimator object, and \<^verbatim>\<open>predict\<close>
  on it then raises \<^verbatim>\<open>ValueError\<close> with the message \<^verbatim>\<open>Model not trained\<close>.
\<close>

theorem save_load_without_classifier:
  assumes "instance_state s a = Some Uninitialized"
    and "writable s path"
    and "pickle_loads lib (pickle_dumps lib None) = Inr None"
    and "files s2 path = files (snd (save lib a path s)) path"
    and "get_instance s2 b = Some ib"
  shows "save lib a path s = (Inr (), s\<lparr>files := (files s)(path \<mapsto> pickle_dumps lib None)\<rparr>)
    \<and> fst (load lib b path s2) = Inr ()
    \<and> get_instance (snd (load lib b path s2)) b = Some (ib\<lparr>model := None\<rparr>)
    \<and> classifier_of (snd (load lib b path s2)) b = None
    \<and> instance_state (snd (load lib b path s2)) b = Some Uninitialized
    \<and> predict lib b X (snd (load lib b path s2))
        = (Inl (ValueError ''Model not trained''), snd (load lib b path s2))"
proof -
  from assms(1) obtain i where i: "get_instance s a = Some i" "model_value s i = Some None"
    by (auto dest: model_value_Uninitialized)
  note sv = save_ok [OF i(1) assms(2) i(2), of lib]
  have f: "files s2 path = Some (pickle_dumps lib None)"
    by (simp add: assms(4) sv)
  note r = load_result [OF assms(5) f assms(3)]
  have st: "instance_state (snd (load lib b path s2)) b = Some Uninitialized"
    using r(2) by (auto simp: instance_state_Uninitialized)
  from sv r(1-3) st predict_Uninitialized [OF st, of lib X] show ?thesis
    by simp
qed

theorem save_load_without_classifier_witness:
  "instance_state demo_bare 0 = Some Uninitialized
   \<and> fst (save demo_library 0 ''none.pkl'' demo_bare) = Inr ()
   \<and> files (snd (save demo_library 0 ''none.pkl'' demo_bare)) ''none.pkl'' = Some None
   \<and> instance_state demo_none_saved 1 = Some Untrained
   \<and> fst (load demo_library 1 ''none.pkl'' demo_none_saved) = Inr ()
   \<and> get_instance (snd (load demo_library 1 ''none.pkl'' demo_none_saved)) 1 =
       Some \<lparr>cls = RandomForestModel, model = None, model_name = ''RandomForest''\<rparr>
   \<and> instance_state (snd (load demo_library 1 ''none.pkl'' demo_none_saved)) 1
       = Some Uninitialized
   \<and> fst (predict demo_library 1 [5] (snd (load demo_library 1 ''none.pkl'' demo_none_saved)))
       = Inl (ValueError ''Model not trained'')"
proof -
  let ?ib = "\<lparr>cls = RandomForestModel, model = Some 2, model_name = ''RandomForest''\<rparr>"
  have w: "writable demo_bare ''none.pkl''"
    by (simp add: demo_bare_eq)
  have p: "pickle_loads demo_library (pickle_dumps demo_library None) = Inr None"
    by (simp add: demo_library_def)
  have sv: "files (snd (save demo_library 0 ''none.pkl'' demo_bare)) ''none.pkl'' = Some None"
    by (simp add: demo_bare_eq save_def get_instance_def lookup_def model_value_def
        demo_library_def)
  have f: "files demo_none_saved ''none.pkl''
             = files (snd (save demo_library 0 ''none.pkl'' demo_bare)) ''none.pkl''"
    by (simp add: sv) (simp add: demo_none_saved_eq)
  have b: "get_instance demo_none_saved 1 = Some ?ib"
    by (simp add: demo_none_saved_eq get_instance_def lookup_def)
  have u: "instance_state demo_none_saved 1 = Some Untrained"
    by (simp add: demo_none_saved_eq instance_state_def model_value_def get_instance_def
        get_classifier_def lookup_def)
  from save_load_without_classifier [OF demo_bare_state w p f b, of "[5]"]
    demo_bare_state sv u
  show ?thesis by simp
qed

end
